theory Spec2Isabelle
  imports Complex_Main
begin

section \<open>Files Dividers plugin: data model\<close>

text \<open>
  A shallow embedding of \<^verbatim>\<open>src/main.ts\<close>. JavaScript strings are modelled as
  \<^typ>\<open>string\<close> (lists of code units, here those below U+0100), the plugin object as a
  record that is passed through every method, and the part of the DOM the plugin reads
  and writes as a record of the queried elements.
\<close>

datatype item_type = File | Folder

datatype position = Above | Below

datatype divider_style = Line | Space | Gradient

text \<open>The text a template literal inserts for a value of the two string unions.\<close>

fun itemTypeText :: "item_type \<Rightarrow> string" where
  "itemTypeText File = ''file''"
| "itemTypeText Folder = ''folder''"

fun positionText :: "position \<Rightarrow> string" where
  "positionText Above = ''above''"
| "positionText Below = ''below''"

record divider =
  itemName :: string
  itemType :: item_type
  position :: position
  style :: divider_style

text \<open>
  \<^verbatim>\<open>interface FilesDividersSettings\<close>. The thickness is a JavaScript number; the
  settings tab only ever stores the integer steps of its slider, so it is an \<^typ>\<open>int\<close>.
\<close>

record FilesDividersSettings =
  dividers :: "divider list"
  dividerColor :: string
  dividerThickness :: int
  enabled :: bool

definition DEFAULT_SETTINGS :: FilesDividersSettings where
  "DEFAULT_SETTINGS =
     \<lparr>dividers = [], dividerColor = ''#484848'', dividerThickness = 1, enabled = True\<rparr>"

subsection \<open>Style sheet\<close>

text \<open>
  The text of the injected style element is a sequence of blocks, one per divider, each
  made of two rule sets. A rule set is kept as its selector text and its declarations;
  a length \<^verbatim>\<open>${n}px\<close> is the number \<open>n\<close>, every other value its text.
\<close>

datatype css_value = Px rat | Lit string

record css_rule =
  selector :: string
  declarations :: "(string \<times> css_value) list"

record css_block =
  segmentRule :: css_rule
  spacingRule :: css_rule

subsection \<open>Document\<close>

text \<open>
  An element carries what the plugin can observe of it: its class list, its
  \<^verbatim>\<open>data-item\<close> and \<^verbatim>\<open>data-type\<close> attributes, and the text content of the first
  descendant matching \<^verbatim>\<open>.nav-folder-title\<close> and \<^verbatim>\<open>.nav-file-title\<close> (\<open>None\<close> when
  \<^verbatim>\<open>querySelector\<close> finds no such descendant). The plugin never changes the tree
  structure below the file explorer, so these two query results are fixed.
\<close>

record element =
  classList :: "string list"
  dataItem :: "string option"
  dataType :: "string option"
  folderTitle :: "string option"
  fileTitle :: "string option"

text \<open>
  The document: the style elements of the head with id \<^verbatim>\<open>files-dividers-styles\<close> in
  document order (each is its content; \<^verbatim>\<open>getElementById\<close> finds the first, \<^verbatim>\<open>appendChild\<close>
  adds one at the end), the descendants of the first \<^verbatim>\<open>.nav-files-container\<close> in
  document order (\<open>None\<close> when there is no such container), and every other element.
\<close>

record document =
  styleElements :: "css_block list list"
  fileExplorer :: "element list option"
  otherElements :: "element list"

text \<open>
  The plugin object with the effects of its host calls: \<open>saved\<close> lists the settings
  handed to \<^verbatim>\<open>saveData\<close>, \<open>notices\<close> the messages shown with \<^verbatim>\<open>new Notice\<close>, both oldest
  first.
\<close>

record FilesDividersPlugin =
  settings :: FilesDividersSettings
  page :: document
  saved :: "FilesDividersSettings list"
  notices :: "string list"

section \<open>String helpers of the host language\<close>

text \<open>\<^verbatim>\<open>String.prototype.trim\<close>, on the white space and line terminators below U+0100.\<close>

definition isWhiteSpace :: "char \<Rightarrow> bool" where
  "isWhiteSpace c =
     (c \<in> set [CHR 0x09, CHR 0x0A, CHR 0x0B, CHR 0x0C, CHR 0x0D, CHR 0x20, CHR 0xA0])"

definition trim :: "string \<Rightarrow> string" where
  "trim s = rev (dropWhile isWhiteSpace (rev (dropWhile isWhiteSpace s)))"

text \<open>The decimal text of a count, as a template literal prints it.\<close>

definition digitChar :: "nat \<Rightarrow> char" where
  "digitChar d = ''0123456789'' ! d"

fun show_nat :: "nat \<Rightarrow> string" where
  "show_nat n =
     (if n < 10 then [digitChar n] else show_nat (n div 10) @ [digitChar (n mod 10)])"

text \<open>
  \<^verbatim>\<open>name.replace(/\.[^/.]+$/, "")\<close>: the search tries every start position from the
  left; a match is a dot followed by one or more characters, none of them a slash or a
  dot, up to the end of the string. The first match is replaced by the empty string.
\<close>

fun stripExt :: "string \<Rightarrow> string" where
  "stripExt [] = []"
| "stripExt (c # cs) =
     (if c = CHR ''.'' \<and> cs \<noteq> [] \<and> list_all (\<lambda>x. x \<noteq> CHR ''/'' \<and> x \<noteq> CHR ''.'') cs
      then []
      else c # stripExt cs)"

text \<open>\<^verbatim>\<open>classList.add\<close> and \<^verbatim>\<open>classList.remove\<close> on the list of class tokens.\<close>

definition classList_add :: "string \<Rightarrow> string list \<Rightarrow> string list" where
  "classList_add c cs = (if c \<in> set cs then cs else cs @ [c])"

definition classList_remove :: "string \<Rightarrow> string list \<Rightarrow> string list" where
  "classList_remove c cs = filter (\<lambda>x. x \<noteq> c) cs"

section \<open>Matching and tagging (addDividerClasses)\<close>

text \<open>The condition of the \<^verbatim>\<open>if\<close> in the file branch, disjuncts in source order.\<close>

definition fileMatches :: "string \<Rightarrow> string \<Rightarrow> bool" where
  "fileMatches fileName dividerName =
     (let fileNameWithoutExt = stripExt fileName;
          dividerNameWithoutExt = stripExt dividerName
      in fileName = dividerName \<or>
         fileNameWithoutExt = dividerNameWithoutExt \<or>
         fileName = dividerNameWithoutExt \<or>
         fileNameWithoutExt = dividerName)"

text \<open>
  The body of both \<^verbatim>\<open>document.querySelectorAll('[data-item]').forEach\<close> loops: an
  element with a \<^verbatim>\<open>data-item\<close> attribute loses it, its \<^verbatim>\<open>data-type\<close> and the four
  divider classes; any other element is not selected.
\<close>

definition clearElement :: "element \<Rightarrow> element" where
  "clearElement el =
     (if dataItem el \<noteq> None
      then el\<lparr>dataItem := None, dataType := None,
              classList :=
                classList_remove ''nav-file-divider-below''
                  (classList_remove ''nav-file-divider-above''
                    (classList_remove ''nav-folder-divider-below''
                      (classList_remove ''nav-folder-divider-above'' (classList el))))\<rparr>
      else el)"

text \<open>One pass of the inner \<^verbatim>\<open>folders.forEach\<close> for an element of the explorer.\<close>

definition tagFolder :: "divider \<Rightarrow> element \<Rightarrow> element" where
  "tagFolder d el =
     (if ''nav-folder'' \<in> set (classList el)
      then (case folderTitle el of
              None \<Rightarrow> el
            | Some text \<Rightarrow>
                (let folderName = trim text
                 in if folderName = itemName d
                    then el\<lparr>classList :=
                               classList_add (''nav-folder-divider-'' @ positionText (position d))
                                 (classList el),
                             dataItem := Some (itemName d),
                             dataType := Some ''folder''\<rparr>
                    else el))
      else el)"

text \<open>One pass of the inner \<^verbatim>\<open>files.forEach\<close> for an element of the explorer.\<close>

definition tagFile :: "divider \<Rightarrow> element \<Rightarrow> element" where
  "tagFile d el =
     (if ''nav-file'' \<in> set (classList el)
      then (case fileTitle el of
              None \<Rightarrow> el
            | Some text \<Rightarrow>
                (let fileName = trim text
                 in if fileMatches fileName (itemName d)
                    then el\<lparr>classList :=
                               classList_add (''nav-file-divider-'' @ positionText (position d))
                                 (classList el),
                             dataItem := Some (itemName d),
                             dataType := Some ''file''\<rparr>
                    else el))
      else el)"

text \<open>The body of \<^verbatim>\<open>this.settings.dividers.forEach\<close>.\<close>

definition tagDivider :: "divider \<Rightarrow> element \<Rightarrow> element" where
  "tagDivider d el = (case itemType d of Folder \<Rightarrow> tagFolder d el | File \<Rightarrow> tagFile d el)"

definition tagAll :: "divider list \<Rightarrow> element list \<Rightarrow> element list" where
  "tagAll ds els = foldl (\<lambda>acc d. map (tagDivider d) acc) els ds"

definition addDividerClasses :: "FilesDividersSettings \<Rightarrow> document \<Rightarrow> document" where
  "addDividerClasses s doc =
     (case fileExplorer doc of
        None \<Rightarrow> doc
      | Some els \<Rightarrow>
          doc\<lparr>fileExplorer := Some (tagAll (dividers s) (map clearElement els)),
              otherElements := map clearElement (otherElements doc)\<rparr>)"

section \<open>Rules and the apply cycle\<close>

text \<open>
  The template of \<^verbatim>\<open>cssRules\<close> for one divider. \<^verbatim>\<open>-${8 + t}px\<close> is the length
  \<open>- (8 + t)\<close>, which is what the text denotes for the thicknesses of the slider.
\<close>

definition ruleSelector :: "divider \<Rightarrow> string" where
  "ruleSelector d =
     (let itemClass = (if itemType d = Folder then ''nav-folder'' else ''nav-file'')
      in ''.'' @ itemClass @ ''-divider-'' @ positionText (position d) @
         ''[data-item='' @ [CHR 0x22] @ itemName d @ [CHR 0x22] @ '']'' @
         ''[data-type='' @ [CHR 0x22] @ itemTypeText (itemType d) @ [CHR 0x22] @ '']'')"

definition cssRule :: "FilesDividersSettings \<Rightarrow> divider \<Rightarrow> css_block" where
  "cssRule s d =
     (let pseudoElement = (if position d = Above then ''before'' else ''after'')
      in \<lparr>segmentRule =
            \<lparr>selector = ruleSelector d @ ''::'' @ pseudoElement,
             declarations =
               [(''content'', Lit [CHR 0x27, CHR 0x27]),
                (''position'', Lit ''absolute''),
                (''left'', Lit ''0''),
                (''right'', Lit ''0''),
                (''width'', Lit ''100%''),
                (''height'', Px (of_int (dividerThickness s))),
                (''background-color'', Lit (dividerColor s)),
                (''border-radius'', Px (of_int (dividerThickness s) / 2)),
                (''opacity'', Lit ''0.6''),
                (if position d = Above
                 then (''top'', Px (- of_int (8 + dividerThickness s)))
                 else (''bottom'', Px (- of_int (8 + dividerThickness s))))]\<rparr>,
          spacingRule =
            \<lparr>selector = ruleSelector d,
             declarations =
               [(''position'', Lit ''relative''),
                (if position d = Above
                 then (''margin-top'', Px 16)
                 else (''margin-bottom'', Px 16))]\<rparr>\<rparr>)"

text \<open>
  \<^verbatim>\<open>removeDividers\<close>: \<^verbatim>\<open>getElementById\<close> yields the first element with the id, which
  is removed; then every element with a \<^verbatim>\<open>data-item\<close> attribute is cleared.
\<close>

definition removeDividers :: "document \<Rightarrow> document" where
  "removeDividers doc =
     doc\<lparr>styleElements := (case styleElements doc of [] \<Rightarrow> [] | existingStyles # rest \<Rightarrow> rest),
         fileExplorer := map_option (map clearElement) (fileExplorer doc),
         otherElements := map clearElement (otherElements doc)\<rparr>"

text \<open>
  \<^verbatim>\<open>applyDividers\<close>: retract, stop when there is no divider, otherwise append the new
  style element to the head and tag the elements of the explorer.
\<close>

definition applyDividers :: "FilesDividersSettings \<Rightarrow> document \<Rightarrow> document" where
  "applyDividers s doc =
     (let doc1 = removeDividers doc
      in if length (dividers s) = 0 then doc1
         else (let cssRules = map (cssRule s) (dividers s);
                   doc2 = doc1\<lparr>styleElements := styleElements doc1 @ [cssRules]\<rparr>
               in addDividerClasses s doc2))"

section \<open>Store operations\<close>

text \<open>
  Every method runs to completion: \<^verbatim>\<open>saveSettings\<close> hands the settings to \<^verbatim>\<open>saveData\<close>
  and, once that has settled, applies or removes the dividers.
\<close>

definition saveSettings :: "FilesDividersPlugin \<Rightarrow> FilesDividersPlugin" where
  "saveSettings p =
     (let p1 = p\<lparr>saved := saved p @ [settings p]\<rparr>
      in if enabled (settings p1)
         then p1\<lparr>page := applyDividers (settings p1) (page p1)\<rparr>
         else p1\<lparr>page := removeDividers (page p1)\<rparr>)"

definition notice :: "string \<Rightarrow> FilesDividersPlugin \<Rightarrow> FilesDividersPlugin" where
  "notice msg p = p\<lparr>notices := notices p @ [msg]\<rparr>"

definition sameTarget :: "string \<Rightarrow> item_type \<Rightarrow> position \<Rightarrow> divider \<Rightarrow> bool" where
  "sameTarget name ty pos d = (itemName d = name \<and> itemType d = ty \<and> position d = pos)"

definition quoted :: "string \<Rightarrow> string" where
  "quoted name = [CHR 0x22] @ name @ [CHR 0x22]"

text \<open>
  The methods of the store. \<^verbatim>\<open>find\<close> yields the first record that satisfies the
  predicate; the local \<^verbatim>\<open>before\<close> of \<^verbatim>\<open>removeDividerFromItem\<close> is \<open>beforeLength\<close> here.
\<close>

definition addDividerToItem ::
  "string \<Rightarrow> item_type \<Rightarrow> position \<Rightarrow> FilesDividersPlugin \<Rightarrow> FilesDividersPlugin" where
  "addDividerToItem name ty pos p =
     (case find (sameTarget name ty pos) (dividers (settings p)) of
        Some exists \<Rightarrow>
          notice (''Divider already exists '' @ positionText pos @ '' '' @ itemTypeText ty @
                  '' '' @ quoted name) p
      | None \<Rightarrow>
          (let p1 = p\<lparr>settings := (settings p)\<lparr>dividers :=
                      dividers (settings p) @
                        [\<lparr>itemName = name, itemType = ty, position = pos, style = Line\<rparr>]\<rparr>\<rparr>
           in notice (''Added divider '' @ positionText pos @ '' '' @ itemTypeText ty @
                      '' '' @ quoted name) (saveSettings p1)))"

definition removeDividerFromItem ::
  "string \<Rightarrow> item_type \<Rightarrow> position \<Rightarrow> FilesDividersPlugin \<Rightarrow> FilesDividersPlugin" where
  "removeDividerFromItem name ty pos p =
     (let beforeLength = length (dividers (settings p));
          p1 = p\<lparr>settings := (settings p)\<lparr>dividers :=
                  filter (\<lambda>d. \<not> sameTarget name ty pos d) (dividers (settings p))\<rparr>\<rparr>
      in if length (dividers (settings p1)) < beforeLength
         then notice (''Removed divider '' @ positionText pos @ '' '' @ itemTypeText ty @
                      '' '' @ quoted name) (saveSettings p1)
         else p1)"

definition clearAllDividers :: "FilesDividersPlugin \<Rightarrow> FilesDividersPlugin" where
  "clearAllDividers p =
     (if length (dividers (settings p)) = 0
      then notice ''No dividers to clear'' p
      else (let count = length (dividers (settings p));
                p1 = p\<lparr>settings := (settings p)\<lparr>dividers := []\<rparr>\<rparr>
            in notice (''Cleared '' @ show_nat count @ '' divider(s)'') (saveSettings p1)))"

definition toggleDividers :: "FilesDividersPlugin \<Rightarrow> FilesDividersPlugin" where
  "toggleDividers p =
     (let p1 = saveSettings (p\<lparr>settings := (settings p)\<lparr>enabled := \<not> enabled (settings p)\<rparr>\<rparr>);
          status = (if enabled (settings p1) then ''enabled'' else ''disabled'')
      in notice (''Files dividers '' @ status) p1)"

section \<open>Presentation state: tags and invariants\<close>

definition dividerClasses :: "string list" where
  "dividerClasses =
     [''nav-folder-divider-above'', ''nav-folder-divider-below'',
      ''nav-file-divider-above'', ''nav-file-divider-below'']"

text \<open>An element without any trace of a divider: no marker attribute, no divider class.\<close>

definition untagged :: "element \<Rightarrow> bool" where
  "untagged el =
     (dataItem el = None \<and> dataType el = None \<and> set (classList el) \<inter> set dividerClasses = {})"

text \<open>
  An element whose tags, if it has any, are in the form the plugin writes them: divider
  classes and \<^verbatim>\<open>data-type\<close> only together with \<^verbatim>\<open>data-item\<close>.
\<close>

definition owned :: "element \<Rightarrow> bool" where
  "owned el = (dataItem el \<noteq> None \<or> untagged el)"

definition explorerElements :: "document \<Rightarrow> element list" where
  "explorerElements doc = (case fileExplorer doc of None \<Rightarrow> [] | Some els \<Rightarrow> els)"

text \<open>
  A document the plugin can work on: the id of its style element is unique, and the tags
  in the explorer are its own.
\<close>

definition tidy :: "document \<Rightarrow> bool" where
  "tidy doc = (length (styleElements doc) \<le> 1 \<and> list_all owned (explorerElements doc))"

text \<open>Nothing was ever applied: no style element of the plugin, no marker attribute.\<close>

definition neverApplied :: "document \<Rightarrow> bool" where
  "neverApplied doc =
     (styleElements doc = [] \<and>
      list_all (\<lambda>el. dataItem el = None) (explorerElements doc @ otherElements doc))"

text \<open>The fully retracted state: no rule definitions, no tag on any item of the tree.\<close>

definition retracted :: "document \<Rightarrow> bool" where
  "retracted doc =
     (styleElements doc = [] \<and> list_all untagged (explorerElements doc) \<and>
      list_all (\<lambda>el. dataItem el = None) (otherElements doc))"

text \<open>What the dividers do to one element of the explorer, and the selected loop body.\<close>

definition tagElement :: "divider list \<Rightarrow> element \<Rightarrow> element" where
  "tagElement ds el = foldl (\<lambda>acc d. tagDivider d acc) el ds"

definition scrub :: "element \<Rightarrow> element" where
  "scrub el =
     el\<lparr>dataItem := None, dataType := None,
        classList :=
          classList_remove ''nav-file-divider-below''
            (classList_remove ''nav-file-divider-above''
              (classList_remove ''nav-folder-divider-below''
                (classList_remove ''nav-folder-divider-above'' (classList el))))\<rparr>"

section \<open>Call sequences and example states\<close>

definition target :: "divider \<Rightarrow> string \<times> item_type \<times> position" where
  "target d = (itemName d, itemType d, position d)"

text \<open>A sequence of \<^verbatim>\<open>addDividerToItem\<close> calls, first call first.\<close>

fun addAll :: "(string \<times> item_type \<times> position) list \<Rightarrow> FilesDividersPlugin \<Rightarrow> FilesDividersPlugin" where
  "addAll [] p = p"
| "addAll ((name, ty, pos) # calls) p = addAll calls (addDividerToItem name ty pos p)"

text \<open>
  A small vault as the file explorer shows it: three folders and two notes, inside the
  container element, with no divider applied yet.
\<close>

definition folderElement :: "string \<Rightarrow> element" where
  "folderElement text =
     \<lparr>classList = [''tree-item'', ''nav-folder''], dataItem = None, dataType = None,
      folderTitle = Some text, fileTitle = None\<rparr>"

definition fileElement :: "string \<Rightarrow> element" where
  "fileElement text =
     \<lparr>classList = [''tree-item'', ''nav-file''], dataItem = None, dataType = None,
      folderTitle = None, fileTitle = Some text\<rparr>"

definition exampleTree :: document where
  "exampleTree =
     \<lparr>styleElements = [],
      fileExplorer =
        Some [folderElement ''Animals'', folderElement ''Animals2'', folderElement ''Science'',
              fileElement ''todo'', fileElement ''Start Here''],
      otherElements =
        [\<lparr>classList = [''workspace-leaf-content''], dataItem = None,
          dataType = Some ''file-explorer'', folderTitle = Some ''Animals'',
          fileTitle = Some ''todo''\<rparr>,
         \<lparr>classList = [''nav-files-container''], dataItem = None, dataType = None,
          folderTitle = Some ''Animals'', fileTitle = Some ''todo''\<rparr>]\<rparr>"

definition examplePlugin :: FilesDividersPlugin where
  "examplePlugin = \<lparr>settings = DEFAULT_SETTINGS, page = exampleTree, saved = [], notices = []\<rparr>"

definition scienceAbove :: divider where
  "scienceAbove = \<lparr>itemName = ''Science'', itemType = Folder, position = Above, style = Line\<rparr>"

definition animalsBelow :: divider where
  "animalsBelow = \<lparr>itemName = ''Animals'', itemType = Folder, position = Below, style = Line\<rparr>"

definition todoAbove :: divider where
  "todoAbove = \<lparr>itemName = ''todo.md'', itemType = File, position = Above, style = Line\<rparr>"

definition exampleSettings :: FilesDividersSettings where
  "exampleSettings =
     \<lparr>dividers = [animalsBelow, todoAbove, scienceAbove], dividerColor = ''#ff0000'',
      dividerThickness = 3, enabled = True\<rparr>"

text \<open>The plugin with two records, enabled, after its apply cycle on the example vault.\<close>

definition exampleApplied :: FilesDividersPlugin where
  "exampleApplied =
     \<lparr>settings = DEFAULT_SETTINGS\<lparr>dividers := [animalsBelow, todoAbove]\<rparr>,
      page = applyDividers (DEFAULT_SETTINGS\<lparr>dividers := [animalsBelow, todoAbove]\<rparr>) exampleTree,
      saved = [], notices = []\<rparr>"

text \<open>Thickness 3, colour \<^verbatim>\<open>#ff0000\<close>, and one record above the folder \<^verbatim>\<open>Science\<close>.\<close>

definition scienceSettings :: FilesDividersSettings where
  "scienceSettings =
     \<lparr>dividers = [scienceAbove], dividerColor = ''#ff0000'', dividerThickness = 3,
      enabled = True\<rparr>"

section \<open>Extension stripping\<close>

lemma stripExt_no_dot: "CHR ''.'' \<notin> set name \<Longrightarrow> stripExt name = name"
  by (induction name) auto

lemma stripExt_last_suffix:
  assumes "ext \<noteq> []" and "CHR ''.'' \<notin> set ext" and "CHR ''/'' \<notin> set ext"
  shows "stripExt (pre @ CHR ''.'' # ext) = pre"
proof (induction pre)
  case Nil
  from assms show ?case by (auto simp: list_all_iff)
next
  case (Cons c pre)
  then show ?case by (auto simp: list_all_iff)
qed

lemma stripExt_unchanged:
  assumes "\<And>pre ext. name = pre @ CHR ''.'' # ext \<Longrightarrow>
             ext = [] \<or> CHR ''.'' \<in> set ext \<or> CHR ''/'' \<in> set ext"
  shows "stripExt name = name"
  using assms
proof (induction name)
  case Nil
  show ?case by simp
next
  case (Cons c cs)
  have tail: "stripExt cs = cs"
  proof (rule Cons.IH)
    fix pre ext
    assume "cs = pre @ CHR ''.'' # ext"
    then have "c # cs = (c # pre) @ CHR ''.'' # ext" by simp
    then show "ext = [] \<or> CHR ''.'' \<in> set ext \<or> CHR ''/'' \<in> set ext"
      by (rule Cons.prems)
  qed
  show ?case
  proof (cases "c = CHR ''.''")
    case True
    then have "c # cs = [] @ CHR ''.'' # cs" by simp
    then have "cs = [] \<or> CHR ''.'' \<in> set cs \<or> CHR ''/'' \<in> set cs"
      by (rule Cons.prems)
    then have "\<not> (cs \<noteq> [] \<and> list_all (\<lambda>x. x \<noteq> CHR ''/'' \<and> x \<noteq> CHR ''.'') cs)"
      by (auto simp: list_all_iff)
    then show ?thesis by (simp add: tail)
  next
    case False
    then show ?thesis by (simp add: tail)
  qed
qed

section \<open>Tagging one element\<close>

lemma clearElement_scrub: "clearElement el = (if dataItem el \<noteq> None then scrub el else el)"
  by (simp add: clearElement_def scrub_def)

lemma positionText_cases: "positionText p = ''above'' \<or> positionText p = ''below''"
  by (cases p) simp_all

lemma scrub_tagFolder: "scrub (tagFolder d el) = scrub el"
  using positionText_cases [of "position d"]
  by (auto simp: tagFolder_def scrub_def classList_add_def classList_remove_def Let_def
           split: option.splits)

lemma scrub_tagFile: "scrub (tagFile d el) = scrub el"
  using positionText_cases [of "position d"]
  by (auto simp: tagFile_def scrub_def classList_add_def classList_remove_def Let_def
           split: option.splits)

lemma scrub_tagDivider: "scrub (tagDivider d el) = scrub el"
  by (cases "itemType d") (simp_all add: tagDivider_def scrub_tagFolder scrub_tagFile)

lemma tagDivider_cases: "tagDivider d el = el \<or> dataItem (tagDivider d el) = Some (itemName d)"
  by (cases "itemType d")
     (auto simp: tagDivider_def tagFolder_def tagFile_def Let_def split: option.splits)

lemma tagDivider_keeps_mark: "dataItem el \<noteq> None \<Longrightarrow> dataItem (tagDivider d el) \<noteq> None"
  using tagDivider_cases [of d el] by auto

lemma scrub_tagElement: "scrub (tagElement ds el) = scrub el"
  unfolding tagElement_def by (induction ds arbitrary: el) (simp_all add: scrub_tagDivider)

lemma tagElement_keeps_mark: "dataItem el \<noteq> None \<Longrightarrow> dataItem (tagElement ds el) \<noteq> None"
proof (induction ds arbitrary: el)
  case Nil
  then show ?case by (simp add: tagElement_def)
next
  case (Cons d ds)
  from Cons.prems have "dataItem (tagDivider d el) \<noteq> None"
    by (rule tagDivider_keeps_mark)
  then have "dataItem (tagElement ds (tagDivider d el)) \<noteq> None"
    by (rule Cons.IH)
  then show ?case by (simp add: tagElement_def)
qed

lemma tagElement_cases: "tagElement ds el = el \<or> dataItem (tagElement ds el) \<noteq> None"
proof (induction ds arbitrary: el)
  case Nil
  show ?case by (simp add: tagElement_def)
next
  case (Cons d ds)
  have step: "tagElement (d # ds) el = tagElement ds (tagDivider d el)"
    by (simp add: tagElement_def)
  from tagDivider_cases [of d el] show ?case
  proof
    assume "tagDivider d el = el"
    with Cons.IH [of el] step show ?thesis by simp
  next
    assume "dataItem (tagDivider d el) = Some (itemName d)"
    then have "dataItem (tagElement ds (tagDivider d el)) \<noteq> None"
      by (intro tagElement_keeps_mark) simp
    with step show ?thesis by simp
  qed
qed

lemma tagAll_map: "tagAll ds els = map (tagElement ds) els"
  unfolding tagAll_def tagElement_def
  by (induction ds arbitrary: els) (simp_all add: comp_def)

lemma scrub_untagged: "untagged el \<Longrightarrow> scrub el = el"
  by (auto simp: untagged_def scrub_def classList_remove_def dividerClasses_def
           intro!: element.equality filter_id_conv [THEN iffD2])

lemma untagged_scrub: "untagged (scrub el)"
  by (auto simp: untagged_def scrub_def classList_remove_def dividerClasses_def)

lemma clearElement_idem: "clearElement (clearElement el) = clearElement el"
  by (simp add: clearElement_def)

lemma clearElement_unmarked: "dataItem el = None \<Longrightarrow> clearElement el = el"
  by (simp add: clearElement_def)

lemma dataItem_clearElement: "dataItem (clearElement el) = None"
  by (simp add: clearElement_def)

lemma untagged_clearElement: "owned el \<Longrightarrow> untagged (clearElement el)"
  by (auto simp: owned_def clearElement_scrub untagged_scrub)

lemma clearElement_tagElement: "untagged el \<Longrightarrow> clearElement (tagElement ds el) = el"
  using tagElement_cases [of ds el] scrub_tagElement [of ds el] scrub_untagged [of el]
  by (auto simp: clearElement_scrub untagged_def)

lemma owned_tagElement: "untagged el \<Longrightarrow> owned (tagElement ds el)"
  using tagElement_cases [of ds el] by (auto simp: owned_def)

section \<open>Retract and apply on documents\<close>

lemma map_clearElement_idem: "map clearElement (map clearElement els) = map clearElement els"
  by (simp add: clearElement_idem)

lemma removeDividers_styles:
  "length (styleElements doc) \<le> 1 \<Longrightarrow> styleElements (removeDividers doc) = []"
  by (cases "styleElements doc") (simp_all add: removeDividers_def)

lemma explorerElements_removeDividers:
  "explorerElements (removeDividers doc) = map clearElement (explorerElements doc)"
  by (simp add: explorerElements_def removeDividers_def split: option.splits)

lemma otherElements_removeDividers:
  "otherElements (removeDividers doc) = map clearElement (otherElements doc)"
  by (simp add: removeDividers_def)

lemma removeDividers_idem:
  assumes "length (styleElements doc) \<le> 1"
  shows "removeDividers (removeDividers doc) = removeDividers doc"
proof -
  from assms have "styleElements doc = [] \<or> (\<exists>st. styleElements doc = [st])"
    by (cases "styleElements doc") auto
  then show ?thesis
    by (auto simp: removeDividers_def clearElement_idem option.map_comp comp_def)
qed

lemma removeDividers_neverApplied:
  assumes "neverApplied doc"
  shows "removeDividers doc = doc"
proof -
  from assms have st: "styleElements doc = []"
    and ex: "list_all (\<lambda>el. dataItem el = None) (explorerElements doc)"
    and ot: "list_all (\<lambda>el. dataItem el = None) (otherElements doc)"
    by (simp_all add: neverApplied_def)
  from ot have ot': "map clearElement (otherElements doc) = otherElements doc"
    by (simp add: list_all_iff map_idI clearElement_unmarked)
  from ex have ex': "map_option (map clearElement) (fileExplorer doc) = fileExplorer doc"
    by (cases "fileExplorer doc")
       (simp_all add: explorerElements_def list_all_iff map_idI clearElement_unmarked)
  from st ot' ex' show ?thesis by (simp add: removeDividers_def)
qed

lemma retracted_removeDividers:
  assumes "tidy doc"
  shows "retracted (removeDividers doc)"
proof -
  from assms have "styleElements (removeDividers doc) = []"
    by (simp add: tidy_def removeDividers_styles)
  moreover from assms have "list_all untagged (explorerElements (removeDividers doc))"
    by (simp add: tidy_def explorerElements_removeDividers list_all_iff untagged_clearElement)
  moreover have "list_all (\<lambda>el. dataItem el = None) (otherElements (removeDividers doc))"
    by (simp add: otherElements_removeDividers list_all_iff dataItem_clearElement)
  ultimately show ?thesis by (simp add: retracted_def)
qed

lemma retracted_tidy: "retracted doc \<Longrightarrow> tidy doc"
  by (simp add: retracted_def tidy_def owned_def list_all_iff)

lemma retracted_neverApplied: "retracted doc \<Longrightarrow> neverApplied doc"
  by (auto simp: retracted_def neverApplied_def untagged_def list_all_iff)

text \<open>The apply cycle on a retracted document, componentwise.\<close>

lemma applyDividers_empty: "dividers s = [] \<Longrightarrow> applyDividers s doc = removeDividers doc"
  by (simp add: applyDividers_def)

lemma styleElements_addDividerClasses:
  "styleElements (addDividerClasses s doc) = styleElements doc"
  by (simp add: addDividerClasses_def split: option.splits)

lemma styleElements_applyDividers:
  assumes "length (styleElements doc) \<le> 1"
  shows "styleElements (applyDividers s doc) =
           (if dividers s = [] then [] else [map (cssRule s) (dividers s)])"
  using removeDividers_styles [OF assms]
  by (simp add: applyDividers_def Let_def styleElements_addDividerClasses)

lemma explorerElements_applyDividers:
  "explorerElements (applyDividers s doc) =
     map (\<lambda>el. tagElement (dividers s) (clearElement el)) (explorerElements doc)"
proof (cases "dividers s = []")
  case True
  then show ?thesis
    by (simp add: applyDividers_empty explorerElements_removeDividers tagElement_def)
next
  case False
  then show ?thesis
    by (cases "fileExplorer doc")
       (simp_all add: applyDividers_def Let_def addDividerClasses_def removeDividers_def
          explorerElements_def tagAll_map clearElement_idem comp_def)
qed

lemma fileExplorer_applyDividers:
  "fileExplorer (applyDividers s doc) =
     map_option (map (\<lambda>el. tagElement (dividers s) (clearElement el))) (fileExplorer doc)"
proof (cases "dividers s = []")
  case True
  then show ?thesis
    by (cases "fileExplorer doc")
       (simp_all add: applyDividers_empty removeDividers_def tagElement_def)
next
  case False
  then show ?thesis
    by (cases "fileExplorer doc")
       (simp_all add: applyDividers_def Let_def addDividerClasses_def removeDividers_def
          tagAll_map clearElement_idem comp_def)
qed

lemma otherElements_applyDividers:
  "otherElements (applyDividers s doc) = map clearElement (otherElements doc)"
  by (cases "fileExplorer doc")
     (simp_all add: applyDividers_def Let_def addDividerClasses_def removeDividers_def
        clearElement_idem comp_def)

lemma document_eqI:
  fixes a b :: document
  assumes "styleElements a = styleElements b" "fileExplorer a = fileExplorer b"
    "otherElements a = otherElements b"
  shows "a = b"
  using assms by (intro document.equality) simp_all

lemma tidy_applyDividers:
  assumes "tidy doc"
  shows "tidy (applyDividers s doc)"
proof -
  from assms have len: "length (styleElements doc) \<le> 1"
    and own: "list_all owned (explorerElements doc)"
    by (simp_all add: tidy_def)
  from len have "length (styleElements (applyDividers s doc)) \<le> 1"
    by (simp add: styleElements_applyDividers)
  moreover from own have "list_all owned (explorerElements (applyDividers s doc))"
    by (simp add: explorerElements_applyDividers list_all_iff owned_tagElement
          untagged_clearElement)
  ultimately show ?thesis by (simp add: tidy_def)
qed

lemma tidy_removeDividers: "tidy doc \<Longrightarrow> tidy (removeDividers doc)"
  by (rule retracted_tidy) (rule retracted_removeDividers)

lemma removeDividers_applyDividers:
  assumes "tidy doc"
  shows "removeDividers (applyDividers s doc) = removeDividers doc"
proof (rule document_eqI)
  from assms have len: "length (styleElements doc) \<le> 1"
    and own: "list_all owned (explorerElements doc)"
    by (simp_all add: tidy_def)
  from tidy_applyDividers [OF assms] have "length (styleElements (applyDividers s doc)) \<le> 1"
    by (simp add: tidy_def)
  with len show "styleElements (removeDividers (applyDividers s doc)) =
      styleElements (removeDividers doc)"
    by (simp add: removeDividers_styles)
  have restore: "clearElement (tagElement (dividers s) (clearElement el)) = clearElement el"
    if "el \<in> set (explorerElements doc)" for el
  proof -
    from own that have "untagged (clearElement el)"
      by (simp add: list_all_iff untagged_clearElement)
    then show ?thesis by (rule clearElement_tagElement)
  qed
  show "fileExplorer (removeDividers (applyDividers s doc)) = fileExplorer (removeDividers doc)"
  proof (cases "fileExplorer doc")
    case None
    then show ?thesis by (simp add: removeDividers_def fileExplorer_applyDividers)
  next
    case (Some els)
    with restore have "\<And>el. el \<in> set els \<Longrightarrow>
        clearElement (tagElement (dividers s) (clearElement el)) = clearElement el"
      by (simp add: explorerElements_def)
    with Some show ?thesis
      by (simp add: removeDividers_def fileExplorer_applyDividers)
  qed
  show "otherElements (removeDividers (applyDividers s doc)) = otherElements (removeDividers doc)"
    by (simp add: otherElements_removeDividers otherElements_applyDividers clearElement_idem)
qed

lemma applyDividers_after_remove:
  "applyDividers s doc = applyDividers s doc' " if "removeDividers doc = removeDividers doc'"
  using that by (simp add: applyDividers_def)

lemma applyDividers_removeDividers:
  assumes "length (styleElements doc) \<le> 1"
  shows "applyDividers s (removeDividers doc) = applyDividers s doc"
  by (rule applyDividers_after_remove) (rule removeDividers_idem [OF assms])

lemma applyDividers_idem:
  assumes "tidy doc"
  shows "applyDividers s (applyDividers s doc) = applyDividers s doc"
  by (rule applyDividers_after_remove) (rule removeDividers_applyDividers [OF assms])

lemma cssRule_enabled_update: "cssRule (s\<lparr>enabled := b\<rparr>) = cssRule s"
  by (rule ext) (simp add: cssRule_def)

lemma applyDividers_enabled_update: "applyDividers (s\<lparr>enabled := b\<rparr>) doc = applyDividers s doc"
  by (simp add: applyDividers_def Let_def addDividerClasses_def cssRule_enabled_update
        split: option.splits)

section \<open>Properties of the store operations\<close>

lemma settings_saveSettings: "settings (saveSettings p) = settings p"
  by (simp add: saveSettings_def Let_def)

lemma saved_saveSettings: "saved (saveSettings p) = saved p @ [settings p]"
  by (simp add: saveSettings_def Let_def)

lemma notices_saveSettings: "notices (saveSettings p) = notices p"
  by (simp add: saveSettings_def Let_def)

lemma page_saveSettings:
  "page (saveSettings p) =
     (if enabled (settings p) then applyDividers (settings p) (page p) else removeDividers (page p))"
  by (simp add: saveSettings_def Let_def)

lemma find_sameTarget_None:
  "find (sameTarget name ty pos) ds = None \<longleftrightarrow> (name, ty, pos) \<notin> set (map target ds)"
  by (auto simp: find_None_iff sameTarget_def target_def)

lemma addDividerToItem_existing:
  assumes "(name, ty, pos) \<in> set (map target (dividers (settings p)))"
  shows "addDividerToItem name ty pos p =
           p\<lparr>notices := notices p @
                [''Divider already exists '' @ positionText pos @ '' '' @ itemTypeText ty @
                 '' '' @ quoted name]\<rparr>"
proof -
  from assms obtain d where "find (sameTarget name ty pos) (dividers (settings p)) = Some d"
    using find_sameTarget_None [of name ty pos "dividers (settings p)"] by fastforce
  then show ?thesis by (simp add: addDividerToItem_def notice_def)
qed

lemma dividers_addDividerToItem_fresh:
  assumes "(name, ty, pos) \<notin> set (map target (dividers (settings p)))"
  shows "dividers (settings (addDividerToItem name ty pos p)) =
           dividers (settings p) @
             [\<lparr>itemName = name, itemType = ty, position = pos, style = Line\<rparr>]"
proof -
  from assms have "find (sameTarget name ty pos) (dividers (settings p)) = None"
    by (simp only: find_sameTarget_None not_False_eq_True)
  then show ?thesis
    by (simp add: addDividerToItem_def notice_def Let_def settings_saveSettings)
qed

lemma addDividerToItem_distinct:
  assumes "distinct (map target (dividers (settings p)))"
  shows "distinct (map target (dividers (settings (addDividerToItem name ty pos p))))"
proof (cases "(name, ty, pos) \<in> set (map target (dividers (settings p)))")
  case True
  with assms show ?thesis by (simp add: addDividerToItem_existing)
next
  case False
  with assms show ?thesis
    by (simp add: dividers_addDividerToItem_fresh) (simp add: target_def)
qed

lemma addAll_distinct:
  "distinct (map target (dividers (settings p))) \<Longrightarrow>
   distinct (map target (dividers (settings (addAll calls p))))"
proof (induction calls arbitrary: p)
  case Nil
  then show ?case by simp
next
  case (Cons call calls)
  obtain name ty pos where call: "call = (name, ty, pos)" by (cases call) auto
  from Cons.prems have "distinct (map target (dividers (settings (addDividerToItem name ty pos p))))"
    by (rule addDividerToItem_distinct)
  then show ?case unfolding call by (simp add: Cons.IH)
qed

lemmas example_defs =
  examplePlugin_def exampleTree_def DEFAULT_SETTINGS_def folderElement_def fileElement_def
  scienceAbove_def animalsBelow_def todoAbove_def exampleSettings_def scienceSettings_def

lemmas tagging_defs =
  tagAll_def tagDivider_def tagFolder_def tagFile_def clearElement_def classList_add_def
  classList_remove_def trim_def isWhiteSpace_def fileMatches_def

lemmas cycle_defs =
  applyDividers_def removeDividers_def addDividerClasses_def saveSettings_def notice_def

lemma sameTarget_target: "sameTarget name ty pos d \<longleftrightarrow> target d = (name, ty, pos)"
  by (auto simp: sameTarget_def target_def)

lemma filter_other_targets_shorter:
  assumes "(name, ty, pos) \<in> set (map target ds)"
  shows "length (filter (\<lambda>d. \<not> sameTarget name ty pos d) ds) < length ds"
proof -
  from assms obtain d where "d \<in> set ds" and "sameTarget name ty pos d"
    by (auto simp: sameTarget_target)
  then show ?thesis by (intro length_filter_less) simp_all
qed

lemma filter_other_targets_same:
  assumes "(name, ty, pos) \<notin> set (map target ds)"
  shows "filter (\<lambda>d. \<not> sameTarget name ty pos d) ds = ds"
  using assms by (force simp: sameTarget_target filter_id_conv)

text \<open>Every operation keeps the page tidy.\<close>

lemma tidy_saveSettings: "tidy (page p) \<Longrightarrow> tidy (page (saveSettings p))"
  by (simp add: page_saveSettings tidy_applyDividers tidy_removeDividers)

lemma page_notice: "page (notice msg p) = page p"
  by (simp add: notice_def)

lemma tidy_addDividerToItem:
  "tidy (page p) \<Longrightarrow> tidy (page (addDividerToItem name ty pos p))"
  by (cases "find (sameTarget name ty pos) (dividers (settings p))")
     (simp_all add: addDividerToItem_def Let_def page_notice tidy_saveSettings)

lemma tidy_removeDividerFromItem:
  "tidy (page p) \<Longrightarrow> tidy (page (removeDividerFromItem name ty pos p))"
  by (simp add: removeDividerFromItem_def Let_def page_notice tidy_saveSettings)

lemma tidy_clearAllDividers: "tidy (page p) \<Longrightarrow> tidy (page (clearAllDividers p))"
  by (simp add: clearAllDividers_def Let_def page_notice tidy_saveSettings)

lemma tidy_toggleDividers: "tidy (page p) \<Longrightarrow> tidy (page (toggleDividers p))"
  by (simp add: toggleDividers_def Let_def page_notice tidy_saveSettings)

section \<open>Claims on matching\<close>

text \<open>
  Claim C1. A file record matches a live file name exactly when one of four conditions
  holds: the names are equal, the names are equal after stripping the extension of both,
  the live name is the stripped record name, or the stripped live name is the record
  name. Stripping leaves a name without a dot unchanged and otherwise removes the last
  dot-delimited suffix only, in one pass. A matching file element of the explorer is the
  one that receives the record's marker. The record \<^verbatim>\<open>todo.md\<close> matches the live file
  \<^verbatim>\<open>todo\<close>, and the record \<^verbatim>\<open>todo\<close> matches the live file \<^verbatim>\<open>todo.md\<close>.
\<close>

theorem file_match_four_conditions:
  "(fileMatches live (itemName d) \<longleftrightarrow>
      (itemName d = live \<or>
       stripExt (itemName d) = stripExt live \<or>
       live = stripExt (itemName d) \<or>
       stripExt live = itemName d)) \<and>
   (CHR ''.'' \<notin> set name \<longrightarrow> stripExt name = name) \<and>
   ((\<forall>pre' ext'. other = pre' @ ''.'' @ ext' \<longrightarrow>
        ext' = [] \<or> CHR ''.'' \<in> set ext' \<or> CHR ''/'' \<in> set ext') \<longrightarrow>
      stripExt other = other) \<and>
   (ext \<noteq> [] \<and> CHR ''.'' \<notin> set ext \<and> CHR ''/'' \<notin> set ext \<longrightarrow>
      stripExt (pre @ ''.'' @ ext) = pre) \<and>
   stripExt ''notes.tar.gz'' = ''notes.tar'' \<and>
   (itemType d = File \<and> ''nav-file'' \<in> set (classList el) \<and> fileTitle el = Some text \<and>
    dataItem el = None \<longrightarrow>
      (dataItem (tagDivider d el) = Some (itemName d)) = fileMatches (trim text) (itemName d)) \<and>
   fileMatches ''todo'' ''todo.md'' \<and>
   fileMatches ''todo.md'' ''todo''"
proof -
  have four: "fileMatches live (itemName d) \<longleftrightarrow>
      (itemName d = live \<or> stripExt (itemName d) = stripExt live \<or>
       live = stripExt (itemName d) \<or> stripExt live = itemName d)"
    unfolding fileMatches_def Let_def by (rule iffI) (elim disjE; simp)+
  have suffix: "ext \<noteq> [] \<and> CHR ''.'' \<notin> set ext \<and> CHR ''/'' \<notin> set ext \<longrightarrow>
      stripExt (pre @ ''.'' @ ext) = pre"
    using stripExt_last_suffix [of ext pre] by simp
  have unchanged: "(\<forall>pre' ext'. other = pre' @ ''.'' @ ext' \<longrightarrow>
        ext' = [] \<or> CHR ''.'' \<in> set ext' \<or> CHR ''/'' \<in> set ext') \<longrightarrow>
      stripExt other = other"
    using stripExt_unchanged [of other] by simp
  have tagged: "itemType d = File \<and> ''nav-file'' \<in> set (classList el) \<and>
      fileTitle el = Some text \<and> dataItem el = None \<longrightarrow>
      (dataItem (tagDivider d el) = Some (itemName d)) = fileMatches (trim text) (itemName d)"
    by (simp add: tagDivider_def tagFile_def Let_def)
  have ex1: "fileMatches ''todo'' ''todo.md''" by (simp add: fileMatches_def)
  have ex2: "fileMatches ''todo.md'' ''todo''" by (simp add: fileMatches_def)
  have single: "stripExt ''notes.tar.gz'' = ''notes.tar''" by simp
  from four stripExt_no_dot unchanged suffix single tagged ex1 ex2 show ?thesis by blast
qed

text \<open>
  The theorem at the record \<^verbatim>\<open>todo.md\<close> and a file element whose title reads
  \<^verbatim>\<open>todo\<close> with surrounding blanks.
\<close>

theorem file_match_four_conditions_witness:
  "dataItem (tagDivider todoAbove (fileElement '' todo '')) = Some ''todo.md'' \<and>
   fileMatches ''todo'' ''todo.md'' \<and>
   stripExt ''todo'' = ''todo'' \<and>
   stripExt ''todo.md'' = ''todo'' \<and>
   stripExt ''notes.'' = ''notes.''"
proof -
  note th = file_match_four_conditions
    [of "''todo''" todoAbove "''todo''" "''notes.''" "''md''" "''todo''"
        "fileElement '' todo ''" "'' todo ''"]
  have d: "itemName todoAbove = ''todo.md''" "itemType todoAbove = File"
    and el: "''nav-file'' \<in> set (classList (fileElement '' todo ''))"
      "fileTitle (fileElement '' todo '') = Some '' todo ''"
      "dataItem (fileElement '' todo '') = None"
    and tr: "trim '' todo '' = ''todo''"
    by (simp_all add: todoAbove_def fileElement_def trim_def isWhiteSpace_def)
  have dots: "CHR ''.'' \<notin> set ''todo''" "''md'' \<noteq> []" "CHR ''.'' \<notin> set ''md''"
    "CHR ''/'' \<notin> set ''md''" "''todo'' @ ''.'' @ ''md'' = ''todo.md''"
    by simp_all
  have last_dot: "\<forall>pre' ext'. ''notes.'' = pre' @ ''.'' @ ext' \<longrightarrow>
      ext' = [] \<or> CHR ''.'' \<in> set ext' \<or> CHR ''/'' \<in> set ext'"
    by (auto simp: append_eq_Cons_conv Cons_eq_append_conv)
  from th have m: "fileMatches ''todo'' (itemName todoAbove)" unfolding d by blast
  from th d el
  have "(dataItem (tagDivider todoAbove (fileElement '' todo '')) = Some (itemName todoAbove)) =
      fileMatches (trim '' todo '') (itemName todoAbove)"
    by blast
  with m have tagged: "dataItem (tagDivider todoAbove (fileElement '' todo '')) = Some ''todo.md''"
    by (simp add: d tr)
  from th dots have plain: "stripExt ''todo'' = ''todo''" by blast
  from th dots have "stripExt (''todo'' @ ''.'' @ ''md'') = ''todo''" by blast
  then have stripped: "stripExt ''todo.md'' = ''todo''" by simp
  from th last_dot have kept: "stripExt ''notes.'' = ''notes.''" by blast
  from tagged m plain stripped kept show ?thesis by (simp add: d)
qed

text \<open>
  Claim C10. File-name matching is symmetric: a record named \<open>a\<close> matches a live file
  shown as \<open>b\<close> exactly when a record named \<open>b\<close> matches a live file shown as \<open>a\<close>.
\<close>

theorem file_match_symmetric: "fileMatches a b \<longleftrightarrow> fileMatches b a"
  unfolding fileMatches_def Let_def by (rule iffI) (elim disjE; simp)+

text \<open>
  Claim C8. A folder record matches a live folder exactly when its name equals the
  folder's displayed name, the trimmed title text: a folder element of the explorer that
  carries no marker receives the record's marker if and only if the two strings are
  equal, and is left untouched otherwise. No extension is stripped. The record for the
  folder \<^verbatim>\<open>Animals\<close> does not match the live folder \<^verbatim>\<open>Animals2\<close>.
\<close>

theorem folder_match_is_exact:
  "(itemType d = Folder \<and> ''nav-folder'' \<in> set (classList el) \<and>
    folderTitle el = Some text \<and> dataItem el = None \<longrightarrow>
      (dataItem (tagDivider d el) = Some (itemName d)) = (itemName d = trim text) \<and>
      (tagDivider d el \<noteq> el) = (itemName d = trim text)) \<and>
   tagDivider animalsBelow (folderElement ''Animals2'') = folderElement ''Animals2'' \<and>
   tagDivider \<lparr>itemName = ''notes.md'', itemType = Folder, position = Above, style = Line\<rparr>
     (folderElement ''notes'') = folderElement ''notes'' \<and>
   tagDivider \<lparr>itemName = ''notes'', itemType = Folder, position = Above, style = Line\<rparr>
     (folderElement ''notes.md'') = folderElement ''notes.md''"
proof (intro conjI impI)
  assume h: "itemType d = Folder \<and> ''nav-folder'' \<in> set (classList el) \<and>
    folderTitle el = Some text \<and> dataItem el = None"
  then show "(dataItem (tagDivider d el) = Some (itemName d)) = (itemName d = trim text)"
    by (auto simp: tagDivider_def tagFolder_def Let_def)
  from h show "(tagDivider d el \<noteq> el) = (itemName d = trim text)"
    by (auto simp: tagDivider_def tagFolder_def Let_def dest: arg_cong [where f = dataItem])
next
  show "tagDivider animalsBelow (folderElement ''Animals2'') = folderElement ''Animals2''"
    by (simp add: tagDivider_def tagFolder_def animalsBelow_def folderElement_def trim_def
          isWhiteSpace_def)
next
  show "tagDivider \<lparr>itemName = ''notes.md'', itemType = Folder, position = Above, style = Line\<rparr>
     (folderElement ''notes'') = folderElement ''notes''"
    by (simp add: tagDivider_def tagFolder_def folderElement_def trim_def isWhiteSpace_def)
next
  show "tagDivider \<lparr>itemName = ''notes'', itemType = Folder, position = Above, style = Line\<rparr>
     (folderElement ''notes.md'') = folderElement ''notes.md''"
    by (simp add: tagDivider_def tagFolder_def folderElement_def trim_def isWhiteSpace_def)
qed

text \<open>
  The theorem at the record below the folder \<^verbatim>\<open>Animals\<close>: the folder element titled
  \<^verbatim>\<open>Animals\<close> is tagged, the one titled \<^verbatim>\<open>Animals2\<close> is not.
\<close>

theorem folder_match_is_exact_witness:
  "itemType animalsBelow = Folder \<and>
   ''nav-folder'' \<in> set (classList (folderElement ''Animals'')) \<and>
   folderTitle (folderElement ''Animals'') = Some ''Animals'' \<and>
   dataItem (folderElement ''Animals'') = None \<and>
   dataItem (tagDivider animalsBelow (folderElement ''Animals'')) = Some ''Animals'' \<and>
   tagDivider animalsBelow (folderElement ''Animals'') \<noteq> folderElement ''Animals'' \<and>
   dataItem (tagDivider animalsBelow (folderElement ''Animals2'')) = None \<and>
   tagDivider animalsBelow (folderElement ''Animals2'') = folderElement ''Animals2''"
proof -
  have pre: "itemType animalsBelow = Folder"
    "''nav-folder'' \<in> set (classList (folderElement ''Animals''))"
    "folderTitle (folderElement ''Animals'') = Some ''Animals''"
    "dataItem (folderElement ''Animals'') = None"
    and pre2: "''nav-folder'' \<in> set (classList (folderElement ''Animals2''))"
    "folderTitle (folderElement ''Animals2'') = Some ''Animals2''"
    "dataItem (folderElement ''Animals2'') = None"
    and nm: "itemName animalsBelow = ''Animals''"
    and tr: "trim ''Animals'' = ''Animals''" "trim ''Animals2'' = ''Animals2''"
    by (simp_all add: animalsBelow_def folderElement_def trim_def isWhiteSpace_def)
  note same = folder_match_is_exact [of animalsBelow "folderElement ''Animals''" "''Animals''"]
  note other = folder_match_is_exact [of animalsBelow "folderElement ''Animals2''" "''Animals2''"]
  from same pre
  have "(dataItem (tagDivider animalsBelow (folderElement ''Animals'')) =
          Some (itemName animalsBelow)) = (itemName animalsBelow = trim ''Animals'')"
    and "(tagDivider animalsBelow (folderElement ''Animals'') \<noteq> folderElement ''Animals'') =
          (itemName animalsBelow = trim ''Animals'')"
    by blast+
  then have hit: "dataItem (tagDivider animalsBelow (folderElement ''Animals'')) = Some ''Animals''"
    and changed: "tagDivider animalsBelow (folderElement ''Animals'') \<noteq> folderElement ''Animals''"
    by (simp_all add: nm tr)
  from other have miss: "tagDivider animalsBelow (folderElement ''Animals2'') = folderElement ''Animals2''"
    by blast
  then have none: "dataItem (tagDivider animalsBelow (folderElement ''Animals2'')) = None"
    by (simp add: pre2)
  from pre hit changed none miss show ?thesis by (intro conjI)
qed

section \<open>Claims on the store\<close>

text \<open>
  Claim C2. After any sequence of additions to an empty store no two records share
  their name, type and position. An addition whose triple is already stored only shows
  the notice that the divider already exists: the settings, the saved settings and the
  page stay as they were.
\<close>

theorem add_never_duplicates:
  "(dividers (settings p) = [] \<longrightarrow>
      distinct (map target (dividers (settings (addAll calls p))))) \<and>
   ((name, ty, pos) \<in> set (map target (dividers (settings p))) \<longrightarrow>
      addDividerToItem name ty pos p =
        p\<lparr>notices := notices p @
             [''Divider already exists '' @ positionText pos @ '' '' @ itemTypeText ty @
              '' '' @ quoted name]\<rparr>)"
proof (intro conjI impI)
  assume "dividers (settings p) = []"
  then have "distinct (map target (dividers (settings p)))" by simp
  then show "distinct (map target (dividers (settings (addAll calls p))))"
    by (rule addAll_distinct)
next
  assume "(name, ty, pos) \<in> set (map target (dividers (settings p)))"
  then show "addDividerToItem name ty pos p =
      p\<lparr>notices := notices p @
           [''Divider already exists '' @ positionText pos @ '' '' @ itemTypeText ty @
            '' '' @ quoted name]\<rparr>"
    by (rule addDividerToItem_existing)
qed

text \<open>
  The theorem at the scenario of adding a divider below the folder \<^verbatim>\<open>Animals\<close> twice:
  the store keeps one record and the second call reports the existing divider.
\<close>

theorem add_never_duplicates_witness:
  "dividers (settings examplePlugin) = [] \<and>
   distinct (map target (dividers (settings
     (addAll [(''Animals'', Folder, Below), (''Animals'', Folder, Below)] examplePlugin)))) \<and>
   length (dividers (settings
     (addAll [(''Animals'', Folder, Below), (''Animals'', Folder, Below)] examplePlugin))) = 1 \<and>
   notices (addAll [(''Animals'', Folder, Below), (''Animals'', Folder, Below)] examplePlugin) =
     [''Added divider below folder '' @ quoted ''Animals'',
      ''Divider already exists below folder '' @ quoted ''Animals''] \<and>
   saved (addAll [(''Animals'', Folder, Below), (''Animals'', Folder, Below)] examplePlugin) =
     saved (addDividerToItem ''Animals'' Folder Below examplePlugin) \<and>
   page (addAll [(''Animals'', Folder, Below), (''Animals'', Folder, Below)] examplePlugin) =
     page (addDividerToItem ''Animals'' Folder Below examplePlugin)"
proof -
  let ?once = "addDividerToItem ''Animals'' Folder Below examplePlugin"
  let ?calls = "[(''Animals'', Folder, Below), (''Animals'', Folder, Below)]"
  have empty: "dividers (settings examplePlugin) = []"
    by (simp add: example_defs)
  have once: "dividers (settings ?once) =
      [\<lparr>itemName = ''Animals'', itemType = Folder, position = Below, style = Line\<rparr>]"
    by (simp add: dividers_addDividerToItem_fresh empty)
  have first: "notices ?once = [''Added divider below folder '' @ quoted ''Animals'']"
    by (simp add: addDividerToItem_def empty notice_def Let_def notices_saveSettings)
       (simp add: example_defs)
  have member: "(''Animals'', Folder, Below) \<in> set (map target (dividers (settings ?once)))"
    by (simp add: once target_def)
  have twice: "addAll ?calls examplePlugin = addDividerToItem ''Animals'' Folder Below ?once"
    by simp
  from add_never_duplicates [of examplePlugin ?calls] empty
  have unique: "distinct (map target (dividers (settings (addAll ?calls examplePlugin))))"
    by blast
  from add_never_duplicates [of ?once _ "''Animals''" Folder Below] member
  have again: "addDividerToItem ''Animals'' Folder Below ?once =
      ?once\<lparr>notices := notices ?once @
        [''Divider already exists '' @ positionText Below @ '' '' @ itemTypeText Folder @
         '' '' @ quoted ''Animals'']\<rparr>"
    by blast
  have size: "length (dividers (settings (addAll ?calls examplePlugin))) = 1"
    unfolding twice again by (simp add: once)
  have msgs: "notices (addAll ?calls examplePlugin) =
      [''Added divider below folder '' @ quoted ''Animals'',
       ''Divider already exists below folder '' @ quoted ''Animals'']"
    unfolding twice again by (simp add: first)
  have rest: "saved (addAll ?calls examplePlugin) = saved ?once"
    "page (addAll ?calls examplePlugin) = page ?once"
    unfolding twice again by simp_all
  from empty unique size msgs rest show ?thesis by (intro conjI)
qed

text \<open>
  Claim C4, as the code has it. When a record with the given name, type and position is
  stored, \<^verbatim>\<open>removeDividerFromItem\<close> deletes it, saves the settings, applies or retracts
  the dividers according to the enabled flag, and shows the notice
  \<^verbatim>\<open>Removed divider <position> <type> "<name>"\<close>. When no record matches, the plugin
  is left exactly as it was: the store is unchanged, nothing is saved or reapplied, and
  no notice is shown.
\<close>

theorem remove_one_outcomes:
  "((name, ty, pos) \<in> set (map target (dividers (settings p))) \<longrightarrow>
      dividers (settings (removeDividerFromItem name ty pos p)) =
        filter (\<lambda>d. target d \<noteq> (name, ty, pos)) (dividers (settings p)) \<and>
      (name, ty, pos) \<notin>
        set (map target (dividers (settings (removeDividerFromItem name ty pos p)))) \<and>
      saved (removeDividerFromItem name ty pos p) =
        saved p @ [settings (removeDividerFromItem name ty pos p)] \<and>
      page (removeDividerFromItem name ty pos p) =
        (if enabled (settings p)
         then applyDividers (settings (removeDividerFromItem name ty pos p)) (page p)
         else removeDividers (page p)) \<and>
      notices (removeDividerFromItem name ty pos p) =
        notices p @
          [''Removed divider '' @ positionText pos @ '' '' @ itemTypeText ty @ '' '' @
           quoted name]) \<and>
   ((name, ty, pos) \<notin> set (map target (dividers (settings p))) \<longrightarrow>
      removeDividerFromItem name ty pos p = p)"
proof (intro conjI impI)
  let ?kept = "filter (\<lambda>d. \<not> sameTarget name ty pos d) (dividers (settings p))"
  let ?p1 = "p\<lparr>settings := (settings p)\<lparr>dividers := ?kept\<rparr>\<rparr>"
  have kept: "?kept = filter (\<lambda>d. target d \<noteq> (name, ty, pos)) (dividers (settings p))"
    by (simp add: sameTarget_target)
  {
    assume "(name, ty, pos) \<in> set (map target (dividers (settings p)))"
    then have "length ?kept < length (dividers (settings p))"
      by (rule filter_other_targets_shorter)
    then have run: "removeDividerFromItem name ty pos p =
        notice (''Removed divider '' @ positionText pos @ '' '' @ itemTypeText ty @ '' '' @
                quoted name) (saveSettings ?p1)"
      by (simp add: removeDividerFromItem_def Let_def)
    have st: "settings (removeDividerFromItem name ty pos p) = (settings p)\<lparr>dividers := ?kept\<rparr>"
      by (simp add: run notice_def settings_saveSettings)
    show "dividers (settings (removeDividerFromItem name ty pos p)) =
        filter (\<lambda>d. target d \<noteq> (name, ty, pos)) (dividers (settings p))"
      by (simp add: st kept)
    then show "(name, ty, pos) \<notin>
        set (map target (dividers (settings (removeDividerFromItem name ty pos p))))"
      by auto
    show "saved (removeDividerFromItem name ty pos p) =
        saved p @ [settings (removeDividerFromItem name ty pos p)]"
      unfolding st by (simp add: run notice_def saved_saveSettings)
    show "page (removeDividerFromItem name ty pos p) =
        (if enabled (settings p)
         then applyDividers (settings (removeDividerFromItem name ty pos p)) (page p)
         else removeDividers (page p))"
      unfolding st by (simp add: run notice_def page_saveSettings)
    show "notices (removeDividerFromItem name ty pos p) =
        notices p @
          [''Removed divider '' @ positionText pos @ '' '' @ itemTypeText ty @ '' '' @
           quoted name]"
      by (simp add: run notice_def notices_saveSettings)
  }
  {
    assume "(name, ty, pos) \<notin> set (map target (dividers (settings p)))"
    then have "?kept = dividers (settings p)"
      by (rule filter_other_targets_same)
    then show "removeDividerFromItem name ty pos p = p"
      by (simp add: removeDividerFromItem_def Let_def)
  }
qed

text \<open>
  The theorem at the example plugin after the divider below \<^verbatim>\<open>Animals\<close> was added:
  removing it empties the store and reports the removal, and removing it a second time
  changes nothing.
\<close>

theorem remove_one_outcomes_witness:
  "(''Animals'', Folder, Below) \<in>
     set (map target (dividers (settings (addDividerToItem ''Animals'' Folder Below examplePlugin)))) \<and>
   dividers (settings (removeDividerFromItem ''Animals'' Folder Below
     (addDividerToItem ''Animals'' Folder Below examplePlugin))) = [] \<and>
   notices (removeDividerFromItem ''Animals'' Folder Below
     (addDividerToItem ''Animals'' Folder Below examplePlugin)) =
     [''Added divider below folder '' @ quoted ''Animals'',
      ''Removed divider below folder '' @ quoted ''Animals''] \<and>
   (''Animals'', Folder, Below) \<notin> set (map target (dividers (settings examplePlugin))) \<and>
   removeDividerFromItem ''Animals'' Folder Below examplePlugin = examplePlugin"
proof -
  let ?added = "addDividerToItem ''Animals'' Folder Below examplePlugin"
  have empty: "dividers (settings examplePlugin) = []"
    by (simp add: example_defs)
  have ds: "dividers (settings ?added) =
      [\<lparr>itemName = ''Animals'', itemType = Folder, position = Below, style = Line\<rparr>]"
    by (simp add: dividers_addDividerToItem_fresh empty)
  have ns: "notices ?added = [''Added divider below folder '' @ quoted ''Animals'']"
    by (simp add: addDividerToItem_def empty notice_def Let_def notices_saveSettings)
       (simp add: example_defs)
  have stored: "(''Animals'', Folder, Below) \<in> set (map target (dividers (settings ?added)))"
    by (simp add: ds target_def)
  have absent: "(''Animals'', Folder, Below) \<notin> set (map target (dividers (settings examplePlugin)))"
    by (simp add: empty)
  note hit = remove_one_outcomes [of "''Animals''" Folder Below ?added]
  note miss = remove_one_outcomes [of "''Animals''" Folder Below examplePlugin]
  from hit stored
  have "dividers (settings (removeDividerFromItem ''Animals'' Folder Below ?added)) =
      filter (\<lambda>d. target d \<noteq> (''Animals'', Folder, Below)) (dividers (settings ?added))"
    and "notices (removeDividerFromItem ''Animals'' Folder Below ?added) =
      notices ?added @
        [''Removed divider '' @ positionText Below @ '' '' @ itemTypeText Folder @ '' '' @
         quoted ''Animals'']"
    by blast+
  then have gone: "dividers (settings (removeDividerFromItem ''Animals'' Folder Below ?added)) = []"
    and told: "notices (removeDividerFromItem ''Animals'' Folder Below ?added) =
      [''Added divider below folder '' @ quoted ''Animals'',
       ''Removed divider below folder '' @ quoted ''Animals'']"
    by (simp_all add: ds ns target_def)
  from miss absent
  have same: "removeDividerFromItem ''Animals'' Folder Below examplePlugin = examplePlugin"
    by blast
  from stored gone told absent same show ?thesis by (intro conjI)
qed

text \<open>
  Against the claim as stated (every call, also one that matches no record, reports the
  removed count in a notice): on the example plugin, whose store is empty and which has
  shown no notice, the call shows none.
\<close>

theorem remove_without_match_is_silent:
  "dividers (settings examplePlugin) = [] \<and>
   notices examplePlugin = [] \<and>
   notices (removeDividerFromItem ''Animals'' Folder Below examplePlugin) = []"
  by (simp add: removeDividerFromItem_def Let_def examplePlugin_def DEFAULT_SETTINGS_def)

text \<open>
  Claim C5. On a store with \<open>n > 0\<close> records \<^verbatim>\<open>clearAllDividers\<close> empties the store,
  saves the settings, reapplies (which, with no record left, retracts everything), and
  shows \<^verbatim>\<open>Cleared n divider(s)\<close>. On an empty store it only shows the notice that
  there are no dividers to clear: nothing is saved and the page is not touched.
\<close>

theorem clear_all_outcomes:
  "(dividers (settings p) \<noteq> [] \<longrightarrow>
      settings (clearAllDividers p) = (settings p)\<lparr>dividers := []\<rparr> \<and>
      saved (clearAllDividers p) = saved p @ [(settings p)\<lparr>dividers := []\<rparr>] \<and>
      page (clearAllDividers p) =
        (if enabled (settings p) then applyDividers ((settings p)\<lparr>dividers := []\<rparr>) (page p)
         else removeDividers (page p)) \<and>
      page (clearAllDividers p) = removeDividers (page p) \<and>
      notices (clearAllDividers p) =
        notices p @ [''Cleared '' @ show_nat (length (dividers (settings p))) @ '' divider(s)'']) \<and>
   (dividers (settings p) = [] \<longrightarrow>
      clearAllDividers p = p\<lparr>notices := notices p @ [''No dividers to clear'']\<rparr>)"
proof (intro conjI impI)
  let ?p1 = "p\<lparr>settings := (settings p)\<lparr>dividers := []\<rparr>\<rparr>"
  {
    assume "dividers (settings p) \<noteq> []"
    then have run: "clearAllDividers p =
        notice (''Cleared '' @ show_nat (length (dividers (settings p))) @ '' divider(s)'')
          (saveSettings ?p1)"
      by (simp add: clearAllDividers_def Let_def)
    show "settings (clearAllDividers p) = (settings p)\<lparr>dividers := []\<rparr>"
      by (simp add: run notice_def settings_saveSettings)
    show "saved (clearAllDividers p) = saved p @ [(settings p)\<lparr>dividers := []\<rparr>]"
      by (simp add: run notice_def saved_saveSettings)
    show cycle: "page (clearAllDividers p) =
        (if enabled (settings p) then applyDividers ((settings p)\<lparr>dividers := []\<rparr>) (page p)
         else removeDividers (page p))"
      by (simp add: run notice_def page_saveSettings)
    show "page (clearAllDividers p) = removeDividers (page p)"
      by (simp add: cycle applyDividers_empty)
    show "notices (clearAllDividers p) =
        notices p @ [''Cleared '' @ show_nat (length (dividers (settings p))) @ '' divider(s)'']"
      by (simp add: run notice_def notices_saveSettings)
  }
  {
    assume "dividers (settings p) = []"
    then show "clearAllDividers p = p\<lparr>notices := notices p @ [''No dividers to clear'']\<rparr>"
      by (simp add: clearAllDividers_def notice_def)
  }
qed

text \<open>
  The theorem at a store of three records, and at the empty store that the first call
  leaves behind.
\<close>

theorem clear_all_outcomes_witness:
  "dividers (settings (examplePlugin\<lparr>settings := exampleSettings\<rparr>)) \<noteq> [] \<and>
   length (dividers (settings (examplePlugin\<lparr>settings := exampleSettings\<rparr>))) = 3 \<and>
   dividers (settings (clearAllDividers (examplePlugin\<lparr>settings := exampleSettings\<rparr>))) = [] \<and>
   notices (clearAllDividers (examplePlugin\<lparr>settings := exampleSettings\<rparr>)) =
     [''Cleared 3 divider(s)''] \<and>
   saved (clearAllDividers (examplePlugin\<lparr>settings := exampleSettings\<rparr>)) =
     [exampleSettings\<lparr>dividers := []\<rparr>] \<and>
   page (clearAllDividers (examplePlugin\<lparr>settings := exampleSettings\<rparr>)) =
     removeDividers exampleTree \<and>
   dividers (settings examplePlugin) = [] \<and>
   clearAllDividers examplePlugin = examplePlugin\<lparr>notices := [''No dividers to clear'']\<rparr>"
proof -
  let ?full = "examplePlugin\<lparr>settings := exampleSettings\<rparr>"
  have st: "settings ?full = exampleSettings" and sv: "saved ?full = []"
    and nt: "notices ?full = []" and pg: "page ?full = exampleTree"
    by (simp_all add: examplePlugin_def)
  have ds: "dividers exampleSettings = [animalsBelow, todoAbove, scienceAbove]"
    by (simp add: exampleSettings_def)
  have ne: "dividers (settings ?full) \<noteq> []" and three: "length (dividers (settings ?full)) = 3"
    by (simp_all add: st ds)
  have empty: "dividers (settings examplePlugin) = []" and nt0: "notices examplePlugin = []"
    by (simp_all add: examplePlugin_def DEFAULT_SETTINGS_def)
  note full = clear_all_outcomes [of ?full]
  note none = clear_all_outcomes [of examplePlugin]
  from full ne
  have "settings (clearAllDividers ?full) = (settings ?full)\<lparr>dividers := []\<rparr>"
    and "saved (clearAllDividers ?full) = saved ?full @ [(settings ?full)\<lparr>dividers := []\<rparr>]"
    and "page (clearAllDividers ?full) = removeDividers (page ?full)"
    and "notices (clearAllDividers ?full) =
      notices ?full @ [''Cleared '' @ show_nat (length (dividers (settings ?full))) @ '' divider(s)'']"
    by blast+
  then have cleared: "dividers (settings (clearAllDividers ?full)) = []"
    and kept: "saved (clearAllDividers ?full) = [exampleSettings\<lparr>dividers := []\<rparr>]"
    and shown: "page (clearAllDividers ?full) = removeDividers exampleTree"
    and told: "notices (clearAllDividers ?full) = [''Cleared 3 divider(s)'']"
    unfolding three by (simp_all add: st sv nt pg digitChar_def)
  from none empty
  have "clearAllDividers examplePlugin =
      examplePlugin\<lparr>notices := notices examplePlugin @ [''No dividers to clear'']\<rparr>"
    by blast
  then have noop: "clearAllDividers examplePlugin =
      examplePlugin\<lparr>notices := [''No dividers to clear'']\<rparr>"
    by (simp add: nt0)
  from ne three cleared told kept shown empty noop show ?thesis by (intro conjI)
qed

section \<open>Claims on the rules\<close>

text \<open>
  Claim C3. For a thickness \<open>t\<close> from 1 to 5 and a colour \<open>c\<close>, Apply emits one style
  element with exactly one block per record, in store order. The decorative segment of
  the block of a record has height \<open>t\<close>, background colour \<open>c\<close> and corner radius
  \<open>t / 2\<close>; for a record above its item it is placed at top offset \<open>- (8 + t)\<close> and the
  item gets a top margin of 16, for a record below it is the bottom offset and the
  bottom margin.
\<close>

theorem rule_geometry:
  assumes "1 \<le> dividerThickness s" and "dividerThickness s \<le> 5"
  shows
    "(tidy doc \<and> dividers s \<noteq> [] \<longrightarrow>
        styleElements (applyDividers s doc) = [map (cssRule s) (dividers s)]) \<and>
     selector (segmentRule (cssRule s d)) =
       ruleSelector d @ (case position d of Above \<Rightarrow> ''::before'' | Below \<Rightarrow> ''::after'') \<and>
     selector (spacingRule (cssRule s d)) = ruleSelector d \<and>
     map_of (declarations (segmentRule (cssRule s d))) ''height'' =
       Some (Px (of_int (dividerThickness s))) \<and>
     map_of (declarations (segmentRule (cssRule s d))) ''background-color'' =
       Some (Lit (dividerColor s)) \<and>
     map_of (declarations (segmentRule (cssRule s d))) ''border-radius'' =
       Some (Px (of_int (dividerThickness s) / 2)) \<and>
     (position d = Above \<longrightarrow>
        map_of (declarations (segmentRule (cssRule s d))) ''top'' =
          Some (Px (- of_int (8 + dividerThickness s))) \<and>
        map_of (declarations (segmentRule (cssRule s d))) ''bottom'' = None \<and>
        map_of (declarations (spacingRule (cssRule s d))) ''margin-top'' = Some (Px 16) \<and>
        map_of (declarations (spacingRule (cssRule s d))) ''margin-bottom'' = None) \<and>
     (position d = Below \<longrightarrow>
        map_of (declarations (segmentRule (cssRule s d))) ''bottom'' =
          Some (Px (- of_int (8 + dividerThickness s))) \<and>
        map_of (declarations (segmentRule (cssRule s d))) ''top'' = None \<and>
        map_of (declarations (spacingRule (cssRule s d))) ''margin-bottom'' = Some (Px 16) \<and>
        map_of (declarations (spacingRule (cssRule s d))) ''margin-top'' = None)"
proof -
  have emitted: "styleElements (applyDividers s doc) = [map (cssRule s) (dividers s)]"
    if "tidy doc \<and> dividers s \<noteq> []"
  proof -
    from that have "length (styleElements doc) \<le> 1" by (simp add: tidy_def)
    from styleElements_applyDividers [OF this, of s] that show ?thesis by simp
  qed
  have sel: "selector (segmentRule (cssRule s d)) =
      ruleSelector d @ (case position d of Above \<Rightarrow> ''::before'' | Below \<Rightarrow> ''::after'')"
    by (cases "position d") (simp_all add: cssRule_def)
  have sel': "selector (spacingRule (cssRule s d)) = ruleSelector d"
    by (simp add: cssRule_def)
  have common:
    "map_of (declarations (segmentRule (cssRule s d))) ''height'' =
       Some (Px (of_int (dividerThickness s)))"
    "map_of (declarations (segmentRule (cssRule s d))) ''background-color'' =
       Some (Lit (dividerColor s))"
    "map_of (declarations (segmentRule (cssRule s d))) ''border-radius'' =
       Some (Px (of_int (dividerThickness s) / 2))"
    by (simp_all add: cssRule_def)
  have above:
    "map_of (declarations (segmentRule (cssRule s d))) ''top'' =
       Some (Px (- of_int (8 + dividerThickness s))) \<and>
     map_of (declarations (segmentRule (cssRule s d))) ''bottom'' = None \<and>
     map_of (declarations (spacingRule (cssRule s d))) ''margin-top'' = Some (Px 16) \<and>
     map_of (declarations (spacingRule (cssRule s d))) ''margin-bottom'' = None"
    if "position d = Above"
    using that by (simp add: cssRule_def)
  have below:
    "map_of (declarations (segmentRule (cssRule s d))) ''bottom'' =
       Some (Px (- of_int (8 + dividerThickness s))) \<and>
     map_of (declarations (segmentRule (cssRule s d))) ''top'' = None \<and>
     map_of (declarations (spacingRule (cssRule s d))) ''margin-bottom'' = Some (Px 16) \<and>
     map_of (declarations (spacingRule (cssRule s d))) ''margin-top'' = None"
    if "position d = Below"
    using that by (simp add: cssRule_def)
  from emitted sel sel' common above below show ?thesis by blast
qed

text \<open>
  The theorem at thickness 3, colour \<^verbatim>\<open>#ff0000\<close> and one record above the folder
  \<^verbatim>\<open>Science\<close>: height 3, top offset \<open>-11\<close>, top margin 16.
\<close>

theorem rule_geometry_witness:
  "1 \<le> dividerThickness scienceSettings \<and> dividerThickness scienceSettings \<le> 5 \<and>
   tidy exampleTree \<and> dividers scienceSettings \<noteq> [] \<and> position scienceAbove = Above \<and>
   styleElements (applyDividers scienceSettings exampleTree) =
     [[cssRule scienceSettings scienceAbove]] \<and>
   map_of (declarations (segmentRule (cssRule scienceSettings scienceAbove))) ''height'' =
     Some (Px 3) \<and>
   map_of (declarations (segmentRule (cssRule scienceSettings scienceAbove)))
     ''background-color'' = Some (Lit ''#ff0000'') \<and>
   map_of (declarations (segmentRule (cssRule scienceSettings scienceAbove))) ''border-radius'' =
     Some (Px (3 / 2)) \<and>
   map_of (declarations (segmentRule (cssRule scienceSettings scienceAbove))) ''top'' =
     Some (Px (- 11)) \<and>
   map_of (declarations (spacingRule (cssRule scienceSettings scienceAbove))) ''margin-top'' =
     Some (Px 16)"
proof -
  have lo: "1 \<le> dividerThickness scienceSettings"
    and hi: "dividerThickness scienceSettings \<le> 5"
    and th: "dividerThickness scienceSettings = 3"
    and co: "dividerColor scienceSettings = ''#ff0000''"
    and ds: "dividers scienceSettings = [scienceAbove]"
    and po: "position scienceAbove = Above"
    by (simp_all add: scienceSettings_def scienceAbove_def)
  have t0: "tidy exampleTree"
    by (simp add: example_defs tidy_def owned_def untagged_def explorerElements_def
          dividerClasses_def)
  note geometry = rule_geometry [OF lo hi, of exampleTree scienceAbove]
  from geometry t0 ds
  have "styleElements (applyDividers scienceSettings exampleTree) =
      [map (cssRule scienceSettings) (dividers scienceSettings)]"
    by simp
  then have one: "styleElements (applyDividers scienceSettings exampleTree) =
      [[cssRule scienceSettings scienceAbove]]"
    by (simp add: ds)
  from geometry
  have "map_of (declarations (segmentRule (cssRule scienceSettings scienceAbove))) ''height'' =
      Some (Px (of_int (dividerThickness scienceSettings)))"
    and "map_of (declarations (segmentRule (cssRule scienceSettings scienceAbove)))
      ''background-color'' = Some (Lit (dividerColor scienceSettings))"
    and "map_of (declarations (segmentRule (cssRule scienceSettings scienceAbove)))
      ''border-radius'' = Some (Px (of_int (dividerThickness scienceSettings) / 2))"
    by blast+
  then have seg:
    "map_of (declarations (segmentRule (cssRule scienceSettings scienceAbove))) ''height'' =
      Some (Px 3)"
    "map_of (declarations (segmentRule (cssRule scienceSettings scienceAbove)))
      ''background-color'' = Some (Lit ''#ff0000'')"
    "map_of (declarations (segmentRule (cssRule scienceSettings scienceAbove)))
      ''border-radius'' = Some (Px (3 / 2))"
    by (simp_all add: th co)
  from geometry po
  have "map_of (declarations (segmentRule (cssRule scienceSettings scienceAbove))) ''top'' =
      Some (Px (- of_int (8 + dividerThickness scienceSettings)))"
    and mt: "map_of (declarations (spacingRule (cssRule scienceSettings scienceAbove)))
      ''margin-top'' = Some (Px 16)"
    by blast+
  then have top: "map_of (declarations (segmentRule (cssRule scienceSettings scienceAbove)))
      ''top'' = Some (Px (- 11))"
    by (simp add: th)
  from ds have ne: "dividers scienceSettings \<noteq> []" by simp
  from lo hi t0 ne po one seg top mt show ?thesis by (intro conjI)
qed

section \<open>Claims on the apply cycle\<close>

text \<open>
  Claim C9. Retract removes the emitted rule definitions and every tag from the items of
  the tree, leaving it untagged. On a document to which nothing was ever applied it
  changes nothing, and a second Retract right after a first changes nothing either. The
  operation has no failing branch.
\<close>

theorem retract_untags_and_is_idempotent:
  "(tidy doc \<longrightarrow> retracted (removeDividers doc)) \<and>
   (neverApplied doc \<longrightarrow> removeDividers doc = doc) \<and>
   (length (styleElements doc) \<le> 1 \<longrightarrow>
      removeDividers (removeDividers doc) = removeDividers doc) \<and>
   (tidy doc \<and> neverApplied doc \<longrightarrow> removeDividers (applyDividers s doc) = doc)"
proof (intro conjI impI)
  assume "tidy doc"
  then show "retracted (removeDividers doc)" by (rule retracted_removeDividers)
next
  assume "neverApplied doc"
  then show "removeDividers doc = doc" by (rule removeDividers_neverApplied)
next
  assume "length (styleElements doc) \<le> 1"
  then show "removeDividers (removeDividers doc) = removeDividers doc"
    by (rule removeDividers_idem)
next
  assume "tidy doc \<and> neverApplied doc"
  then show "removeDividers (applyDividers s doc) = doc"
    by (simp add: removeDividers_applyDividers removeDividers_neverApplied)
qed

text \<open>
  The theorem at the example vault: after an apply cycle with three records Retract
  gives the original tree back, and on that tree it is the identity.
\<close>

theorem retract_untags_and_is_idempotent_witness:
  "tidy (applyDividers exampleSettings exampleTree) \<and>
   retracted (removeDividers (applyDividers exampleSettings exampleTree)) \<and>
   removeDividers (applyDividers exampleSettings exampleTree) = exampleTree \<and>
   neverApplied exampleTree \<and>
   removeDividers exampleTree = exampleTree \<and>
   length (styleElements (applyDividers exampleSettings exampleTree)) = 1 \<and>
   removeDividers (removeDividers (applyDividers exampleSettings exampleTree)) =
     removeDividers (applyDividers exampleSettings exampleTree)"
proof -
  let ?applied = "applyDividers exampleSettings exampleTree"
  have t: "tidy ?applied"
    by (simp add: example_defs cycle_defs tagging_defs tidy_def owned_def untagged_def
          explorerElements_def dividerClasses_def)
  have n: "neverApplied exampleTree"
    by (simp add: example_defs neverApplied_def explorerElements_def)
  have l: "length (styleElements ?applied) = 1"
    by (simp add: example_defs cycle_defs)
  have t0: "tidy exampleTree"
    by (simp add: example_defs tidy_def owned_def untagged_def explorerElements_def
          dividerClasses_def)
  from retract_untags_and_is_idempotent [of ?applied] t l
  have "retracted (removeDividers ?applied)"
    and "removeDividers (removeDividers ?applied) = removeDividers ?applied"
    by simp_all
  moreover from retract_untags_and_is_idempotent [of exampleTree exampleSettings] n t0
  have "removeDividers exampleTree = exampleTree"
    and "removeDividers ?applied = exampleTree"
    by blast+
  ultimately show ?thesis using t n l by (intro conjI)
qed

text \<open>
  Claim C6. Apply begins by retracting: what an earlier cycle has emitted reaches the
  result only through the retracted document, so two documents with the same retraction
  give the same result, and the only style element left is the new one. With no divider
  the result is the fully retracted document, without rules. A second Apply with the
  same settings on the same tree leaves the document of the first Apply as it is. The
  condition on the document, that its tags are the plugin's own and the id of the style
  element is unique, holds again after every Apply.
\<close>

theorem apply_retracts_then_rebuilds:
  "(removeDividers doc = removeDividers doc' \<longrightarrow> applyDividers s doc = applyDividers s doc') \<and>
   (tidy doc \<longrightarrow>
      styleElements (applyDividers s doc) =
        (if dividers s = [] then [] else [map (cssRule s) (dividers s)])) \<and>
   (dividers s = [] \<longrightarrow> applyDividers s doc = removeDividers doc) \<and>
   (tidy doc \<and> dividers s = [] \<longrightarrow> retracted (applyDividers s doc)) \<and>
   (tidy doc \<longrightarrow>
      tidy (applyDividers s doc) \<and>
      applyDividers s (applyDividers s doc) = applyDividers s doc)"
proof (intro conjI impI)
  assume "removeDividers doc = removeDividers doc'"
  then show "applyDividers s doc = applyDividers s doc'"
    by (rule applyDividers_after_remove)
next
  assume "tidy doc"
  then have "length (styleElements doc) \<le> 1" by (simp add: tidy_def)
  then show "styleElements (applyDividers s doc) =
      (if dividers s = [] then [] else [map (cssRule s) (dividers s)])"
    by (rule styleElements_applyDividers)
next
  assume "dividers s = []"
  then show "applyDividers s doc = removeDividers doc" by (rule applyDividers_empty)
next
  assume "tidy doc \<and> dividers s = []"
  then have "tidy doc" and "applyDividers s doc = removeDividers doc"
    by (simp_all add: applyDividers_empty)
  then show "retracted (applyDividers s doc)"
    by (simp add: retracted_removeDividers)
next
  assume "tidy doc"
  then show "tidy (applyDividers s doc)"
    by (rule tidy_applyDividers)
next
  assume "tidy doc"
  then show "applyDividers s (applyDividers s doc) = applyDividers s doc"
    by (rule applyDividers_idem)
qed

text \<open>
  The theorem at the example vault, on the document a first Apply has produced, for the
  three example records and for an empty store.
\<close>

theorem apply_retracts_then_rebuilds_witness:
  "tidy (applyDividers exampleSettings exampleTree) \<and>
   dividers DEFAULT_SETTINGS = [] \<and>
   removeDividers (applyDividers exampleSettings exampleTree) = removeDividers exampleTree \<and>
   applyDividers exampleSettings (applyDividers exampleSettings exampleTree) =
     applyDividers exampleSettings exampleTree \<and>
   styleElements (applyDividers exampleSettings (applyDividers exampleSettings exampleTree)) =
     [map (cssRule exampleSettings) [animalsBelow, todoAbove, scienceAbove]] \<and>
   retracted (applyDividers DEFAULT_SETTINGS (applyDividers exampleSettings exampleTree)) \<and>
   applyDividers DEFAULT_SETTINGS (applyDividers exampleSettings exampleTree) = exampleTree"
proof -
  let ?applied = "applyDividers exampleSettings exampleTree"
  note again = apply_retracts_then_rebuilds [of ?applied exampleTree exampleSettings]
  note cleared = apply_retracts_then_rebuilds [of ?applied exampleTree DEFAULT_SETTINGS]
  have t: "tidy ?applied"
    by (simp add: example_defs cycle_defs tagging_defs tidy_def owned_def untagged_def
          explorerElements_def dividerClasses_def)
  have d: "dividers DEFAULT_SETTINGS = []"
    and d': "dividers exampleSettings = [animalsBelow, todoAbove, scienceAbove]"
    by (simp_all add: DEFAULT_SETTINGS_def exampleSettings_def)
  have e: "removeDividers ?applied = exampleTree"
    by (simp add: example_defs cycle_defs tagging_defs)
  have e': "removeDividers exampleTree = exampleTree"
    by (simp add: example_defs cycle_defs tagging_defs)
  from e e' have same: "removeDividers ?applied = removeDividers exampleTree" by simp
  from again same have twice: "applyDividers exampleSettings ?applied = ?applied" by blast
  from again t have "styleElements (applyDividers exampleSettings ?applied) =
      (if dividers exampleSettings = [] then []
       else [map (cssRule exampleSettings) (dividers exampleSettings)])"
    unfolding twice by blast
  then have rules: "styleElements (applyDividers exampleSettings ?applied) =
      [map (cssRule exampleSettings) [animalsBelow, todoAbove, scienceAbove]]"
    by (simp add: d')
  from cleared t d have r: "retracted (applyDividers DEFAULT_SETTINGS ?applied)" by blast
  from cleared d have "applyDividers DEFAULT_SETTINGS ?applied = removeDividers ?applied"
    by blast
  with e have none: "applyDividers DEFAULT_SETTINGS ?applied = exampleTree" by simp
  from t d same twice rules r none show ?thesis by (intro conjI)
qed

text \<open>
  Claim C7. Toggle flips the enabled flag, saves the settings, applies the dividers when
  the new state is enabled and retracts them when it is disabled, and reports the new
  state. Toggling an enabled plugin off leaves no rule definition and no tag in the
  tree; toggling it on again, with the store and the tree unchanged, brings back the
  same tags and rules.
\<close>

theorem toggle_flips_saves_and_reports:
  "settings (toggleDividers p) = (settings p)\<lparr>enabled := \<not> enabled (settings p)\<rparr> \<and>
   saved (toggleDividers p) = saved p @ [(settings p)\<lparr>enabled := \<not> enabled (settings p)\<rparr>] \<and>
   page (toggleDividers p) =
     (if enabled (settings p) then removeDividers (page p)
      else applyDividers (settings p) (page p)) \<and>
   notices (toggleDividers p) =
     notices p @ [if enabled (settings p) then ''Files dividers disabled''
                  else ''Files dividers enabled''] \<and>
   (enabled (settings p) \<and> tidy (page p) \<longrightarrow> retracted (page (toggleDividers p))) \<and>
   (enabled (settings p) \<and> tidy doc \<and> page p = applyDividers (settings p) doc \<longrightarrow>
      page (toggleDividers (toggleDividers p)) = page p \<and>
      settings (toggleDividers (toggleDividers p)) = settings p)"
proof -
  let ?flipped = "(settings p)\<lparr>enabled := \<not> enabled (settings p)\<rparr>"
  have s: "settings (toggleDividers p) = ?flipped"
    by (simp add: toggleDividers_def Let_def notice_def settings_saveSettings)
  have v: "saved (toggleDividers p) = saved p @ [?flipped]"
    by (simp add: toggleDividers_def Let_def notice_def saved_saveSettings)
  have g: "page (toggleDividers p) =
     (if enabled (settings p) then removeDividers (page p)
      else applyDividers (settings p) (page p))"
    by (simp add: toggleDividers_def Let_def notice_def page_saveSettings
          applyDividers_enabled_update)
  have n: "notices (toggleDividers p) =
     notices p @ [if enabled (settings p) then ''Files dividers disabled''
                  else ''Files dividers enabled'']"
    by (simp add: toggleDividers_def Let_def notice_def notices_saveSettings
          settings_saveSettings)
  have off: "retracted (page (toggleDividers p))" if "enabled (settings p) \<and> tidy (page p)"
    using that by (simp add: g retracted_removeDividers)
  have on: "page (toggleDividers (toggleDividers p)) = page p \<and>
      settings (toggleDividers (toggleDividers p)) = settings p"
    if h: "enabled (settings p) \<and> tidy doc \<and> page p = applyDividers (settings p) doc"
  proof
    let ?q = "toggleDividers p"
    from h have en: "enabled (settings p)" and td: "tidy doc"
      and pg: "page p = applyDividers (settings p) doc"
      by simp_all
    from en have q_off: "\<not> enabled (settings ?q)" by (simp add: s)
    from en have q_page: "page ?q = removeDividers (page p)" by (simp add: g)
    have "page (toggleDividers ?q) = applyDividers (settings ?q) (page ?q)"
      using q_off
      by (simp add: toggleDividers_def Let_def notice_def page_saveSettings
            applyDividers_enabled_update)
    also have "\<dots> = applyDividers (settings p) (removeDividers (page p))"
      by (simp add: s q_page applyDividers_enabled_update)
    also have "\<dots> = applyDividers (settings p) (removeDividers doc)"
      by (simp add: pg removeDividers_applyDividers [OF td])
    also have "\<dots> = applyDividers (settings p) doc"
      using td by (simp add: applyDividers_removeDividers tidy_def)
    finally show "page (toggleDividers ?q) = page p" by (simp add: pg)
    show "settings (toggleDividers ?q) = settings p"
      by (simp add: toggleDividers_def Let_def notice_def settings_saveSettings)
  qed
  from s v g n off on show ?thesis by blast
qed

text \<open>
  The theorem at the example vault with two records, enabled and applied: switching off
  gives the plain tree, switching on again the applied document.
\<close>

theorem toggle_flips_saves_and_reports_witness:
  "enabled (settings exampleApplied) \<and>
   tidy exampleTree \<and>
   tidy (page exampleApplied) \<and>
   page exampleApplied = applyDividers (settings exampleApplied) exampleTree \<and>
   length (dividers (settings exampleApplied)) = 2 \<and>
   retracted (page (toggleDividers exampleApplied)) \<and>
   page (toggleDividers exampleApplied) = exampleTree \<and>
   notices (toggleDividers exampleApplied) = [''Files dividers disabled''] \<and>
   page (toggleDividers (toggleDividers exampleApplied)) = page exampleApplied \<and>
   settings (toggleDividers (toggleDividers exampleApplied)) = settings exampleApplied"
proof -
  have en: "enabled (settings exampleApplied)"
    and len: "length (dividers (settings exampleApplied)) = 2"
    and pg: "page exampleApplied = applyDividers (settings exampleApplied) exampleTree"
    and nt: "notices exampleApplied = []"
    by (simp_all add: exampleApplied_def DEFAULT_SETTINGS_def)
  have t0: "tidy exampleTree"
    by (simp add: example_defs tidy_def owned_def untagged_def explorerElements_def
          dividerClasses_def)
  have t1: "tidy (page exampleApplied)"
    by (simp add: exampleApplied_def example_defs cycle_defs tagging_defs tidy_def owned_def
          untagged_def explorerElements_def dividerClasses_def)
  have off: "removeDividers (page exampleApplied) = exampleTree"
    by (simp add: exampleApplied_def example_defs cycle_defs tagging_defs)
  note th = toggle_flips_saves_and_reports [of exampleApplied exampleTree]
  from th en t1 have r: "retracted (page (toggleDividers exampleApplied))" by blast
  from th have "page (toggleDividers exampleApplied) =
      (if enabled (settings exampleApplied) then removeDividers (page exampleApplied)
       else applyDividers (settings exampleApplied) (page exampleApplied))"
    by blast
  with en off have p1: "page (toggleDividers exampleApplied) = exampleTree" by simp
  from th have "notices (toggleDividers exampleApplied) =
      notices exampleApplied @
        [if enabled (settings exampleApplied) then ''Files dividers disabled''
         else ''Files dividers enabled'']"
    by blast
  with en nt have n1: "notices (toggleDividers exampleApplied) = [''Files dividers disabled'']"
    by simp
  from th en t0 pg
  have p2: "page (toggleDividers (toggleDividers exampleApplied)) = page exampleApplied"
    and s2: "settings (toggleDividers (toggleDividers exampleApplied)) = settings exampleApplied"
    by blast+
  from en t0 t1 pg len r p1 n1 p2 s2 show ?thesis by (intro conjI)
qed

end
